theory Spec2Isabelle
  imports Complex_Main
begin

section \<open>Data model of the browser client\<close>

text \<open>
  The client keeps its credentials in the browser's \<^verbatim>\<open>localStorage\<close> and the pending
  two-factor e-mail in \<^verbatim>\<open>sessionStorage\<close>. Both are key/value stores of strings.
  \<^verbatim>\<open>getItem\<close> yields \<^verbatim>\<open>null\<close> (here \<open>None\<close>) for a missing key, \<^verbatim>\<open>setItem\<close> converts
  its argument to a string, so that storing \<^verbatim>\<open>undefined\<close> stores the text "undefined".
  A write to a store always succeeds. The page runs one operation at a time.
\<close>

type_synonym storage = "string \<rightharpoonup> string"

definition getItem :: "storage \<Rightarrow> string \<Rightarrow> string option" where
  "getItem st k = st k"

definition str :: "string option \<Rightarrow> string" where
  "str v = (case v of None \<Rightarrow> ''undefined'' | Some s \<Rightarrow> s)"

definition setItem :: "storage \<Rightarrow> string \<Rightarrow> string option \<Rightarrow> storage" where
  "setItem st k v = st(k \<mapsto> str v)"

definition removeItem :: "storage \<Rightarrow> string \<Rightarrow> storage" where
  "removeItem st k = st(k := None)"

text \<open>JavaScript truthiness of a value that is a string, \<^verbatim>\<open>null\<close> or \<^verbatim>\<open>undefined\<close>.\<close>

definition truthy :: "string option \<Rightarrow> bool" where
  "truthy v = (case v of None \<Rightarrow> False | Some s \<Rightarrow> s \<noteq> [])"

text \<open>\<^verbatim>\<open>types/user.ts\<close>: roles, users and sessions as the client reads them. At run time the
  \<^verbatim>\<open>role\<close> property of a user object may be missing, which \<^verbatim>\<open>RoleProtectedRoute\<close> tests for.\<close>

datatype Role = admin | editor | viewer

record user =
  user_id :: string
  user_email :: string
  user_username :: string
  role :: "Role option"
  isTwoFactorEnabled :: bool

record session =
  session_id :: string
  is_current :: bool

subsection \<open>HTTP requests, responses and errors\<close>

datatype verb = GET | POST | PUT | DELETE

fun toUpperCase :: "verb \<Rightarrow> string" where
  "toUpperCase GET = ''GET''"
| "toUpperCase POST = ''POST''"
| "toUpperCase PUT = ''PUT''"
| "toUpperCase DELETE = ''DELETE''"

datatype jvalue = JStr string | JBool bool

text \<open>The payload of a request: nothing, a \<^verbatim>\<open>URLSearchParams\<close> form, or a JSON object.\<close>

datatype payload = NoPayload | URLSearchParams "(string \<times> string) list" | Json "(string \<times> jvalue) list"

text \<open>An axios request configuration; \<open>http_method\<close> is its \<^verbatim>\<open>method\<close>. \<open>retry\<close> is the \<^verbatim>\<open>_retry\<close> mark that the response
  interceptor puts on a request, \<open>Authorization\<close> the header of that name.\<close>

record request =
  http_method :: verb
  url :: string
  baseURL :: string
  payload :: payload
  Authorization :: "string option"
  retry :: bool

text \<open>The body of a response, seen through the properties that the client reads from it;
  a property that the JSON object does not have reads as \<^verbatim>\<open>undefined\<close> (\<open>None\<close>, or \<open>False\<close>
  for the flag \<^verbatim>\<open>requiresTwoFactor\<close>, of which only the truthiness is used). \<open>as_user\<close> is the
  body read as a \<^verbatim>\<open>User\<close> object, \<open>None\<close> for an empty body.\<close>

record body =
  requiresTwoFactor :: bool
  access_token :: "string option"
  refresh_token :: "string option"
  message :: "string option"
  as_user :: "user option"
  sessions :: "session list option"
  qrCodeUrl :: "string option"
  secret :: "string option"

text \<open>What the backend answers to one request, and the axios response built from it.\<close>

record reply =
  status :: nat
  statusText :: string
  data :: body

record response = reply +
  config :: request

datatype error =
    AxiosError request "response option"
  | Error string
  | TypeError string

fun error_config :: "error \<Rightarrow> request option" where
  "error_config (AxiosError c r) = Some c"
| "error_config _ = None"

fun error_response :: "error \<Rightarrow> response option" where
  "error_response (AxiosError c r) = r"
| "error_response _ = None"

subsection \<open>The console\<close>

text \<open>A console message is the list of the arguments given to \<^verbatim>\<open>console.log\<close> or
  \<^verbatim>\<open>console.error\<close>. Objects are logged as they are: an error with the request
  configuration and response it carries, a response body with its properties.\<close>

datatype logarg =
    LStr string
  | LBool bool
  | LNum rat
  | LUndefined
  | LError error
  | LData body
  | LObj "(string \<times> logarg) list"

datatype loglevel = Info | Err

type_synonym logentry = "loglevel \<times> logarg list"

subsection \<open>The state of the page and of its environment\<close>

text \<open>
  \<open>server\<close> is the sequence of answers that the backend will give, one for each request in
  the order they are sent; when it is exhausted the request gets no answer (a network error).
  \<open>sent\<close> records the requests put on the wire, \<open>console\<close> the messages logged, \<open>href\<close> an
  assignment to \<^verbatim>\<open>window.location.href\<close>, \<open>navigated\<close> the calls of the router's
  \<^verbatim>\<open>navigate\<close>. \<open>user\<close> and \<open>isLoading\<close> are the React state of \<^verbatim>\<open>AuthProvider\<close>,
  \<open>now\<close> is the value of \<^verbatim>\<open>Date.now()\<close> in milliseconds.
\<close>

record world =
  localStorage :: storage
  sessionStorage :: storage
  server :: "reply list"
  sent :: "request list"
  console :: "logentry list"
  href :: "string option"
  navigated :: "string list"
  user :: "user option"
  isLoading :: bool
  now :: int

definition console_log :: "logarg list \<Rightarrow> world \<Rightarrow> world" where
  "console_log args w = w\<lparr>console := console w @ [(Info, args)]\<rparr>"

definition console_error :: "logarg list \<Rightarrow> world \<Rightarrow> world" where
  "console_error args w = w\<lparr>console := console w @ [(Err, args)]\<rparr>"

definition navigate :: "string \<Rightarrow> world \<Rightarrow> world" where
  "navigate target w = w\<lparr>navigated := navigated w @ [target]\<rparr>"

text \<open>The axios adapter: the request goes out, the next answer of the backend comes back.
  A status in the range 200 to 299 resolves, any other status rejects with an error that
  carries the request configuration and the response; no answer rejects with an error
  that has no response.\<close>

definition send :: "request \<Rightarrow> world \<Rightarrow> (error + response) \<times> world" where
  "send c w =
    (case server w of
       [] \<Rightarrow> (Inl (AxiosError c None), w\<lparr>sent := sent w @ [c]\<rparr>)
     | r # rs \<Rightarrow>
         (let w' = w\<lparr>server := rs, sent := sent w @ [c]\<rparr>;
              resp = \<lparr>status = status r, statusText = statusText r, data = data r, config = c\<rparr>
          in if 200 \<le> status r \<and> status r < 300 then (Inr resp, w')
             else (Inl (AxiosError c (Some resp)), w')))"

section \<open>services/authService.ts\<close>

subsection \<open>The request interceptor\<close>

definition request_interceptor :: "request \<Rightarrow> world \<Rightarrow> request \<times> world" where
  "request_interceptor c w =
    (let w1 = console_log [LStr (''API Request: '' @ toUpperCase (http_method c) @ '' '' @ url c)] w;
         token = getItem (localStorage w1) ''accessToken''
     in if truthy token
        then (c\<lparr>Authorization := Some (''Bearer '' @ str token)\<rparr>,
              console_log [LStr ''Adding Authorization header with token''] w1)
        else (c, console_log [LStr ''No token available for request''] w1))"

subsection \<open>The response interceptor\<close>

definition optnum :: "nat option \<Rightarrow> logarg" where
  "optnum v = (case v of None \<Rightarrow> LUndefined | Some n \<Rightarrow> LNum (of_nat n))"

definition optstr :: "string option \<Rightarrow> logarg" where
  "optstr v = (case v of None \<Rightarrow> LUndefined | Some s \<Rightarrow> LStr s)"

definition optdata :: "body option \<Rightarrow> logarg" where
  "optdata v = (case v of None \<Rightarrow> LUndefined | Some d \<Rightarrow> LData d)"

text \<open>The success handler logs and passes the response on.\<close>

definition response_interceptor :: "response \<Rightarrow> world \<Rightarrow> response \<times> world" where
  "response_interceptor resp w =
    (resp, console_log [LStr (''API Response Success: '' @ toUpperCase (http_method (config resp))
                                @ '' '' @ url (config resp)), LNum (of_nat (status resp))] w)"

text \<open>
  The error handler either rejects with an error or ends in \<^verbatim>\<open>return api(originalRequest)\<close>.
  \<open>response_error_interceptor\<close> is the handler up to that point; its outcome says which of
  the two it is. \<^verbatim>\<open>originalRequest\<close> is the object \<^verbatim>\<open>error.config\<close>, so that marking it
  \<^verbatim>\<open>_retry\<close> marks the configuration inside the error too.
\<close>

datatype outcome = Retry request | Reject error

definition refresh_request :: "string \<Rightarrow> request" where
  "refresh_request refreshToken =
     \<lparr>http_method = POST, url = ''/api/v1/auth/refresh'', baseURL = [],
      payload = URLSearchParams [(''refresh_token'', refreshToken)],
      Authorization = None, retry = False\<rparr>"

definition clear_tokens :: "world \<Rightarrow> world" where
  "clear_tokens w =
     w\<lparr>localStorage := removeItem (removeItem (localStorage w) ''accessToken'') ''refreshToken''\<rparr>"

definition store_tokens :: "string option \<Rightarrow> string option \<Rightarrow> world \<Rightarrow> world" where
  "store_tokens access refresh w =
     w\<lparr>localStorage := setItem (setItem (localStorage w) ''accessToken'' access) ''refreshToken'' refresh\<rparr>"

definition response_error_interceptor :: "error \<Rightarrow> world \<Rightarrow> outcome \<times> world" where
  "response_error_interceptor err w =
    (let w1 = console_error
           [LStr (''API Response Error: ''
                   @ str (map_option (toUpperCase \<circ> http_method) (error_config err)) @ '' ''
                   @ str (map_option url (error_config err))),
            LObj [(''status'', optnum (map_option status (error_response err))),
                  (''statusText'', optstr (map_option statusText (error_response err))),
                  (''data'', optdata (map_option data (error_response err)))]] w
     in case err of
          AxiosError originalRequest resp \<Rightarrow>
            if map_option status resp = Some 401 \<and> \<not> retry originalRequest then
              (let w2 = console_log [LStr ''Received 401 error, attempting token refresh''] w1;
                   originalRequest = originalRequest\<lparr>retry := True\<rparr>;
                   err = AxiosError originalRequest resp;
                   refreshToken = getItem (localStorage w2) ''refreshToken'';
                   w3 = console_log [LStr ''Refresh token exists:'', LBool (truthy refreshToken)] w2
               in if \<not> truthy refreshToken then
                    (Reject err,
                     (console_error [LStr ''No refresh token available, redirecting to login''] w3)
                       \<lparr>href := Some ''/login''\<rparr>)
                  else
                    (let w4 = console_log [LStr ''Calling refresh token endpoint''] w3;
                         (res, w5) = send (refresh_request (str refreshToken)) w4
                     in case res of
                          Inr response \<Rightarrow>
                            (let w6 = console_log [LStr ''Token refresh successful''] w5;
                                 access_token = access_token (data response);
                                 refresh_token = refresh_token (data response);
                                 w7 = store_tokens access_token refresh_token w6;
                                 w8 = console_log [LStr ''Updated tokens in localStorage''] w7;
                                 originalRequest = originalRequest
                                    \<lparr>Authorization := Some (''Bearer '' @ str access_token)\<rparr>;
                                 w9 = console_log [LStr ''Retrying original request with new token''] w8
                             in (Retry originalRequest, w9))
                        | Inl refreshApiError \<Rightarrow>
                            (let w6 = console_error [LStr ''Token refresh API call failed:'',
                                                     LError refreshApiError] w5;
                                 refreshError = refreshApiError;
                                 w7 = console_error [LStr ''Token refresh process failed:'',
                                                     LError refreshError] w6;
                                 w8 = clear_tokens w7;
                                 w9 = console_log
                                   [LStr ''Cleared tokens from localStorage, redirecting to login''] w8
                             in (Reject refreshError, w9\<lparr>href := Some ''/login''\<rparr>))))
            else (Reject err, w1)
        | _ \<Rightarrow> (Reject err, w1))"

subsection \<open>The api instance\<close>

text \<open>
  A request made through \<^verbatim>\<open>api\<close> passes the request interceptor, goes to the backend, and
  its outcome passes the response interceptor. The error handler's
  \<^verbatim>\<open>return api(originalRequest)\<close> is the recursive call: the promise returned by the handler
  settles as the retried request does, and a rejection of the retry is not caught by the
  handler's \<^verbatim>\<open>try\<close> blocks, since the promise is returned without \<^verbatim>\<open>await\<close>.
  The retried configuration is the object that the handler marked, so it carries the mark
  into the second pass. The recursion ends because only an unmarked request is retried and
  the retry is marked; the three facts before the definition say so.
\<close>

lemma send_error_config:
  "send c w = (Inl e, w') \<Longrightarrow> \<exists>r. e = AxiosError c r"
  by (auto simp: send_def Let_def split: list.splits if_splits)

lemma request_interceptor_retry:
  "request_interceptor c w = (c', w') \<Longrightarrow> retry c' = retry c"
  by (auto simp: request_interceptor_def Let_def split: if_splits)

lemma response_error_interceptor_Retry:
  "response_error_interceptor (AxiosError c r) w = (Retry c', w') \<Longrightarrow> \<not> retry c \<and> retry c'"
  by (auto simp: response_error_interceptor_def Let_def split: if_splits prod.splits sum.splits)

function api :: "request \<Rightarrow> world \<Rightarrow> (error + response) \<times> world" where
  "api c w =
    (let (c1, w1) = request_interceptor c w;
         (res, w2) = send c1 w1
     in case res of
          Inr resp \<Rightarrow> (let (resp', w3) = response_interceptor resp w2 in (Inr resp', w3))
        | Inl err \<Rightarrow>
            (case response_error_interceptor err w2 of
               (Retry originalRequest, w3) \<Rightarrow> api originalRequest w3
             | (Reject e, w3) \<Rightarrow> (Inl e, w3)))"
  by pat_completeness auto
termination
proof (relation "measure (\<lambda>(c, w). if retry c then 0 else 1)")
  show "wf (measure (\<lambda>(c, w). if retry c then 0 else (1::nat)))"
    by simp
next
  fix c w x c1 w1 xa res w2 err oc w3 originalRequest
  assume ri: "x = request_interceptor c w" "(c1, w1) = x"
    and sd: "xa = send c1 w1" "(res, w2) = xa" "res = Inl err"
    and eh: "(oc, w3) = response_error_interceptor err w2" "oc = Retry originalRequest"
  from sd obtain r where e: "err = AxiosError c1 r"
    using send_error_config [of c1 w1 err w2] by auto
  from eh e have "\<not> retry c1 \<and> retry originalRequest"
    using response_error_interceptor_Retry [of c1 r w2 originalRequest w3] by simp
  moreover from ri have "retry c1 = retry c"
    using request_interceptor_retry [of c w c1 w1] by simp
  ultimately show "((originalRequest, w3), (c, w)) \<in> measure (\<lambda>(c, w). if retry c then 0 else 1)"
    by simp
qed

declare api.simps [simp del]

subsection \<open>The authService object\<close>

text \<open>The instance is created with the base URL \<^verbatim>\<open>/api\<close>; a request starts unmarked and
  without an \<^verbatim>\<open>Authorization\<close> header. Every service function returns \<^verbatim>\<open>response.data\<close>.\<close>

definition api_config :: "verb \<Rightarrow> string \<Rightarrow> payload \<Rightarrow> request" where
  "api_config m u p =
     \<lparr>http_method = m, url = u, baseURL = ''/api'', payload = p, Authorization = None, retry = False\<rparr>"

definition response_data :: "(error + response) \<times> world \<Rightarrow> (error + body) \<times> world" where
  "response_data r = (case r of (Inl e, w) \<Rightarrow> (Inl e, w) | (Inr resp, w) \<Rightarrow> (Inr (data resp), w))"


definition authService_login :: "string \<Rightarrow> string \<Rightarrow> world \<Rightarrow> (error + body) \<times> world" where
  "authService_login email password w =
     (let username = email;
          formData = URLSearchParams [(''username'', username), (''password'', password)]
      in response_data (api (api_config POST ''/auth/login'' formData) w))"

definition authService_getSessions :: "world \<Rightarrow> (error + body) \<times> world" where
  "authService_getSessions w = response_data (api (api_config GET ''/auth/sessions'' NoPayload) w)"



definition no_body :: body where
  "no_body = \<lparr>requiresTwoFactor = False, access_token = None, refresh_token = None,
              message = None, as_user = None, sessions = None,
              qrCodeUrl = None, secret = None\<rparr>"

text \<open>\<^verbatim>\<open>logout\<close> looks for the current session and terminates it, or all sessions when there
  is none; whatever fails is caught, logged, and answered with a local message. Reading
  \<^verbatim>\<open>sessions.sessions.find\<close> on a body without a session list is a \<^verbatim>\<open>TypeError\<close>.\<close>

definition authService_logout :: "string \<Rightarrow> world \<Rightarrow> body \<times> world" where
  "authService_logout refreshToken w =
    (let (r, w1) =
       (case authService_getSessions w of
          (Inl e, w1) \<Rightarrow> (Inl e, w1)
        | (Inr sessions', w1) \<Rightarrow>
           (case sessions sessions' of
              None \<Rightarrow> (Inl (TypeError ''Cannot read properties of undefined (reading find)''), w1)
            | Some list \<Rightarrow>
               (case find is_current list of
                  Some currentSession \<Rightarrow>
                    response_data (api (api_config DELETE
                       (''/auth/sessions/'' @ session_id currentSession) NoPayload) w1)
                | None \<Rightarrow>
                    response_data (api (api_config DELETE ''/auth/sessions'' NoPayload) w1))))
     in case r of
          Inr d \<Rightarrow> (d, w1)
        | Inl e \<Rightarrow> (no_body\<lparr>message := Some ''Logged out locally''\<rparr>,
                    console_error [LStr ''Error during logout:'', LError e] w1))"

definition authService_getCurrentUser :: "world \<Rightarrow> (error + body) \<times> world" where
  "authService_getCurrentUser w =
    (let w1 = console_log [LStr ''Calling getCurrentUser API''] w
     in case api (api_config GET ''/auth/me'' NoPayload) w1 of
          (Inr resp, w2) \<Rightarrow>
            (Inr (data resp), console_log [LStr ''getCurrentUser response:'', LData (data resp)] w2)
        | (Inl e, w2) \<Rightarrow>
            (Inl e, console_error [LStr ''getCurrentUser error:'', LError e] w2))"



definition authService_refreshToken :: "string \<Rightarrow> world \<Rightarrow> (error + body) \<times> world" where
  "authService_refreshToken refreshToken w =
     (let formData = URLSearchParams [(''refresh_token'', refreshToken)]
      in response_data (api (api_config POST ''/auth/refresh'' formData) w))"

definition authService_setupTwoFactor :: "world \<Rightarrow> (error + body) \<times> world" where
  "authService_setupTwoFactor w =
     response_data (api (api_config POST ''/auth/2fa/setup'' NoPayload) w)"

definition authService_verifyTwoFactor :: "string \<Rightarrow> bool \<Rightarrow> world \<Rightarrow> (error + body) \<times> world" where
  "authService_verifyTwoFactor token remember w =
     response_data (api (api_config POST ''/auth/2fa/verify''
        (Json [(''token'', JStr token), (''remember'', JBool remember)])) w)"

definition authService_verifyTwoFactorLogin :: "string \<Rightarrow> string \<Rightarrow> world \<Rightarrow> (error + body) \<times> world" where
  "authService_verifyTwoFactorLogin email token w =
     response_data (api (api_config POST ''/auth/2fa/login''
        (Json [(''email'', JStr email), (''token'', JStr token)])) w)"




section \<open>context/AuthContext.tsx\<close>

definition setUser :: "user option \<Rightarrow> world \<Rightarrow> world" where
  "setUser u w = w\<lparr>user := u\<rparr>"

definition setIsLoading :: "bool \<Rightarrow> world \<Rightarrow> world" where
  "setIsLoading b w = w\<lparr>isLoading := b\<rparr>"

subsection \<open>refreshToken\<close>

text \<open>The function never throws: whatever fails inside is caught, the tokens are removed and
  the result is \<^verbatim>\<open>false\<close>.\<close>

definition refreshToken :: "world \<Rightarrow> bool \<times> world" where
  "refreshToken w =
    (let w1 = console_log [LStr ''Starting token refresh process''] w;
         refreshToken' = getItem (localStorage w1) ''refreshToken'';
         w2 = console_log [LStr ''Refresh token exists:'', LBool (truthy refreshToken')] w1;
         (r, w3) =
           (if \<not> truthy refreshToken' then
              (Inl (Error ''No refresh token available''),
               console_error [LStr ''No refresh token available''] w2)
            else
              (let w3 = console_log [LStr ''Calling authService.refreshToken''] w2;
                   (r, w4) =
                     (case authService_refreshToken (str refreshToken') w3 of
                        (Inl e, w4) \<Rightarrow> (Inl e, w4)
                      | (Inr response, w4) \<Rightarrow>
                          (let w5 = console_log
                                 [LStr ''Token refresh successful, new tokens received''] w4;
                               w6 = store_tokens (access_token response) (refresh_token response) w5;
                               w7 = console_log
                                 [LStr ''Tokens stored in localStorage, fetching user data''] w6
                           in case authService_getCurrentUser w7 of
                                (Inl e, w8) \<Rightarrow> (Inl e, w8)
                              | (Inr userData, w8) \<Rightarrow>
                                  (Inr True,
                                   setUser (as_user userData)
                                     (console_log [LStr ''User data after refresh:'',
                                                   LData userData] w8))))
               in case r of
                    Inr b \<Rightarrow> (Inr b, w4)
                  | Inl refreshError \<Rightarrow>
                      (Inl refreshError,
                       console_error [LStr ''Token refresh API call failed:'',
                                      LError refreshError] w4)))
     in case r of
          Inr b \<Rightarrow> (b, w3)
        | Inl err \<Rightarrow>
            (False,
             setUser None
               (clear_tokens
                  (console_error [LStr ''Token refresh process failed:'', LError err] w3))))"

subsection \<open>checkAuthStatus\<close>

text \<open>
  The payload of a decoded token, of which only \<^verbatim>\<open>exp\<close> is read. The decoder of the
  \<^verbatim>\<open>jwt-decode\<close> package is a parameter: it yields the payload or throws an error.
  \<^verbatim>\<open>decoded.exp && decoded.exp < currentTime\<close> tests the truthiness of a number (absent and
  zero are falsy) and then compares. Numbers are rationals here, and \<^verbatim>\<open>Date.now() / 1000\<close>
  is the exact quotient.
\<close>

record JwtPayload =
  exp_claim :: "rat option"

definition truthy_number :: "rat option \<Rightarrow> bool" where
  "truthy_number v = (case v of None \<Rightarrow> False | Some n \<Rightarrow> n \<noteq> 0)"

definition less_number :: "rat option \<Rightarrow> rat \<Rightarrow> bool" where
  "less_number v t = (case v of None \<Rightarrow> False | Some n \<Rightarrow> n < t)"

definition optrat :: "rat option \<Rightarrow> logarg" where
  "optrat v = (case v of None \<Rightarrow> LUndefined | Some n \<Rightarrow> LNum n)"

text \<open>The effect runs once, when the provider is mounted; the \<^verbatim>\<open>user\<close> that its last message
  reads is the state captured then. Nothing in the outer \<^verbatim>\<open>try\<close> block throws past the inner
  handlers, since \<open>refreshToken\<close> never throws, so the outer \<^verbatim>\<open>catch\<close> has no path to it.\<close>

definition checkAuthStatus :: "(string \<Rightarrow> error + JwtPayload) \<Rightarrow> world \<Rightarrow> world" where
  "checkAuthStatus jwtDecode w =
    (let token = getItem (localStorage w) ''accessToken'';
         w1 = console_log [LStr ''Checking auth status, token exists:'', LBool (truthy token)] w;
         w2 =
           (if \<not> truthy token then
              setIsLoading False (console_log [LStr ''No token found, not authenticated''] w1)
            else
              (case jwtDecode (str token) of
                 Inr decoded \<Rightarrow>
                   (let currentTime = of_int (now w1) / 1000;
                        w2 = console_log [LStr ''Token expiry check:'', optrat (exp_claim decoded),
                                          LStr ''Current time:'', LNum currentTime] w1
                    in if truthy_number (exp_claim decoded)
                          \<and> less_number (exp_claim decoded) currentTime then
                         snd (refreshToken
                                (console_log [LStr ''Token expired, attempting refresh''] w2))
                       else
                         (let w3 = console_log [LStr ''Token valid, getting user info''] w2
                          in case authService_getCurrentUser w3 of
                               (Inr userData, w4) \<Rightarrow>
                                 setUser (as_user userData)
                                   (console_log [LStr ''User data received:'', LData userData] w4)
                             | (Inl err, w4) \<Rightarrow>
                                 snd (refreshToken
                                   (console_log
                                      [LStr ''Attempting token refresh after getCurrentUser failure'']
                                      (console_error [LStr ''Error getting user data:'',
                                                      LError err] w4)))))
               | Inl err \<Rightarrow>
                   snd (refreshToken
                          (console_error [LStr ''Token validation error:'', LError err] w1))))
     in console_log [LStr ''Auth loading complete, isAuthenticated:'', LBool (user w \<noteq> None)]
          (setIsLoading False w2))"

subsection \<open>login\<close>

text \<open>The logged copy of the login response: both token properties are overwritten, with
  \<^verbatim>\<open>[REDACTED]\<close> when truthy and \<^verbatim>\<open>undefined\<close> otherwise. The result \<open>Inr b\<close> stands for
  the object \<^verbatim>\<open>{ requiresTwoFactor: b }\<close>, \<open>Inl e\<close> for the error thrown.\<close>

definition redacted :: "body \<Rightarrow> body" where
  "redacted response =
     response\<lparr>access_token := (if truthy (access_token response) then Some ''[REDACTED]'' else None),
              refresh_token := (if truthy (refresh_token response) then Some ''[REDACTED]'' else None)\<rparr>"

definition login :: "string \<Rightarrow> string \<Rightarrow> world \<Rightarrow> (error + bool) \<times> world" where
  "login email password w =
    (let w1 = console_log [LStr ''Login attempt for email:'', LStr email] w;
         w2 = console_log [LStr ''Calling authService.login''] w1;
         (r, w3) =
           (case authService_login email password w2 of
              (Inl e, w3) \<Rightarrow> (Inl e, w3)
            | (Inr response, w3) \<Rightarrow>
                (let w4 = console_log [LStr ''Login response received:'',
                                       LData (redacted response)] w3
                 in if requiresTwoFactor response then
                      (let w5 = console_log
                             [LStr ''2FA required, storing email in sessionStorage''] w4
                       in (Inr True,
                           w5\<lparr>sessionStorage :=
                                 setItem (sessionStorage w5) ''twoFactorEmail'' (Some email)\<rparr>))
                    else
                      (let w5 = console_log [LStr ''Storing tokens in localStorage''] w4;
                           w6 = store_tokens (access_token response) (refresh_token response) w5;
                           w7 = console_log [LStr ''Fetching user data after login''] w6
                       in case authService_getCurrentUser w7 of
                            (Inr userData, w8) \<Rightarrow>
                              (Inr False,
                               console_log [LStr ''User state updated, authentication complete'']
                                 (setUser (as_user userData)
                                    (console_log [LStr ''User data received after login:'',
                                                  LData userData] w8)))
                          | (Inl userDataError, w8) \<Rightarrow>
                              (Inl userDataError,
                               console_error [LStr ''Failed to fetch user data after login:'',
                                              LError userDataError] w8))))
     in case r of
          Inr result \<Rightarrow> (Inr result, w3)
        | Inl err \<Rightarrow> (Inl err, console_error [LStr ''Login failed:'', LError err] w3))"

subsection \<open>logout\<close>

text \<open>\<open>authService_logout\<close> never rejects, so the \<^verbatim>\<open>catch\<close> block is not reached; the
  \<^verbatim>\<open>finally\<close> block always runs.\<close>

definition logout :: "world \<Rightarrow> world" where
  "logout w =
    (let refreshToken' = getItem (localStorage w) ''refreshToken'';
         w1 = (if truthy refreshToken' then snd (authService_logout (str refreshToken') w) else w)
     in navigate ''/login'' (setUser None (clear_tokens w1)))"

subsection \<open>The other members\<close>

definition discard :: "(error + 'a) \<times> world \<Rightarrow> (error + unit) \<times> world" where
  "discard r = (case r of (Inl e, w) \<Rightarrow> (Inl e, w) | (Inr x, w) \<Rightarrow> (Inr (), w))"


definition setupTwoFactor :: "world \<Rightarrow> (error + body) \<times> world" where
  "setupTwoFactor w = authService_setupTwoFactor w"

definition verifyTwoFactor :: "string \<Rightarrow> bool \<Rightarrow> world \<Rightarrow> (error + unit) \<times> world" where
  "verifyTwoFactor token remember w = discard (authService_verifyTwoFactor token remember w)"

definition verifyTwoFactorLogin :: "string \<Rightarrow> world \<Rightarrow> (error + unit) \<times> world" where
  "verifyTwoFactorLogin token w =
    (let email = getItem (sessionStorage w) ''twoFactorEmail''
     in if \<not> truthy email then (Inl (Error ''Email not found for 2FA verification''), w)
        else
          (case authService_verifyTwoFactorLogin (str email) token w of
             (Inl e, w1) \<Rightarrow> (Inl e, w1)
           | (Inr response, w1) \<Rightarrow>
               (let w2 = store_tokens (access_token response) (refresh_token response) w1
                in case authService_getCurrentUser w2 of
                     (Inl e, w3) \<Rightarrow> (Inl e, w3)
                   | (Inr userData, w3) \<Rightarrow>
                       (let w4 = setUser (as_user userData) w3
                        in (Inr (),
                            w4\<lparr>sessionStorage :=
                                  removeItem (sessionStorage w4) ''twoFactorEmail''\<rparr>)))))"






text \<open>
  The value that \<^verbatim>\<open>AuthProvider\<close> provides is an object with these members; \<^verbatim>\<open>useAuth\<close>
  hands it out, and a component that destructures a name gets \<^verbatim>\<open>undefined\<close> (\<open>None\<close>) for
  a name that the object does not have.
\<close>

datatype member = State | Function

definition AuthProvider_value :: "(string \<times> member) list" where
  "AuthProvider_value =
     [(''user'', State), (''isAuthenticated'', State), (''isLoading'', State),
      (''login'', Function), (''register'', Function), (''logout'', Function),
      (''setupTwoFactor'', Function), (''verifyTwoFactor'', Function),
      (''verifyTwoFactorLogin'', Function), (''forgotPassword'', Function),
      (''resetPassword'', Function), (''verifyEmail'', Function),
      (''updateProfile'', Function), (''updatePassword'', Function)]"

definition useAuth :: "string \<Rightarrow> member option" where
  "useAuth name = map_of AuthProvider_value name"

definition isAuthenticated :: "world \<Rightarrow> bool" where
  "isAuthenticated w = (user w \<noteq> None)"

text \<open>The operations of the provider: the mount effect and the function members.\<close>

datatype operation =
    CheckAuthStatus
  | RefreshToken
  | Login string string
  | Register string string string
  | Logout
  | SetupTwoFactor
  | VerifyTwoFactor string bool
  | VerifyTwoFactorLogin string
  | ForgotPassword string
  | ResetPassword string string
  | VerifyEmail string
  | UpdateProfile string string
  | UpdatePassword string string


text \<open>The two tokens are kept as a pair: an entry for one exactly when there is an entry for
  the other.\<close>

definition has_item :: "storage \<Rightarrow> string \<Rightarrow> bool" where
  "has_item st k = (getItem st k \<noteq> None)"

definition tokens_paired :: "world \<Rightarrow> bool" where
  "tokens_paired w =
     (has_item (localStorage w) ''accessToken'' = has_item (localStorage w) ''refreshToken'')"

definition tokens_stored :: "world \<Rightarrow> bool" where
  "tokens_stored w =
     (has_item (localStorage w) ''accessToken'' \<and> has_item (localStorage w) ''refreshToken'')"

definition tokens_removed :: "world \<Rightarrow> bool" where
  "tokens_removed w =
     (\<not> has_item (localStorage w) ''accessToken'' \<and> \<not> has_item (localStorage w) ''refreshToken'')"

section \<open>Pages and route guards\<close>

text \<open>\<^verbatim>\<open>err.response?.data?.message || fallback\<close>, the message a page shows for an error.\<close>

definition error_message :: "error \<Rightarrow> string \<Rightarrow> string" where
  "error_message err fallback =
     (case error_response err of
        None \<Rightarrow> fallback
      | Some r \<Rightarrow> if truthy (message (data r)) then str (message (data r)) else fallback)"

subsection \<open>pages/auth/LoginPage.tsx\<close>

record LoginFormValues =
  values_email :: string
  values_password :: string
  values_rememberMe :: bool

text \<open>\<open>handleSubmit\<close> yields the error message that the page shows (empty when there is none).\<close>

definition LoginPage_handleSubmit :: "string \<Rightarrow> LoginFormValues \<Rightarrow> world \<Rightarrow> string \<times> world" where
  "LoginPage_handleSubmit returnUrl vals w =
    (let w1 = console_log [LStr ''LoginPage - Login attempt started for:'',
                           LStr (values_email vals)] w;
         w2 = console_log [LStr ''LoginPage - Return URL is:'', LStr returnUrl] w1;
         w3 = console_log [LStr ''LoginPage - Calling login function''] w2
     in case login (values_email vals) (values_password vals) w3 of
          (Inr result, w4) \<Rightarrow>
            (let w5 = console_log [LStr ''LoginPage - Login result:'',
                                   LObj [(''requiresTwoFactor'', LBool result)]] w4
             in if result then
                  ([], navigate ''/verify-2fa''
                         (console_log
                            [LStr ''LoginPage - 2FA required, navigating to verification page''] w5))
                else
                  ([], navigate returnUrl
                         (console_log [LStr ''LoginPage - Login successful, navigating to:'',
                                       LStr returnUrl] w5)))
        | (Inl err, w4) \<Rightarrow>
            (error_message err ''Failed to login. Please check your credentials.'',
             console_error [LStr ''LoginPage - Login error:'', LError err] w4))"

subsection \<open>Form validation\<close>

text \<open>
  Formik validates the values against the schema when the form is submitted and calls the
  submit handler only when the schema accepts them. \<^verbatim>\<open>Yup.string().required()\<close> refuses the
  empty string; \<^verbatim>\<open>matches(/^\d{6}$/)\<close> is the regular expression read from the left:
  \<open>digits n s\<close> consumes \<^verbatim>\<open>\d{n}\<close> at the start of \<open>s\<close> and yields the rest, and the
  anchor \<^verbatim>\<open>$\<close> asks for the rest to be empty.
\<close>

definition isDigit :: "char \<Rightarrow> bool" where
  "isDigit c = (c \<in> set ''0123456789'')"

fun digits :: "nat \<Rightarrow> string \<Rightarrow> string option" where
  "digits 0 s = Some s"
| "digits (Suc n) [] = None"
| "digits (Suc n) (c # s) = (if isDigit c then digits n s else None)"

definition matches_six_digits :: "string \<Rightarrow> bool" where
  "matches_six_digits s = (digits 6 s = Some [])"

definition Yup_required :: "string \<Rightarrow> bool" where
  "Yup_required s = (s \<noteq> [])"

definition Formik_submit ::
  "('v \<Rightarrow> bool) \<Rightarrow> ('v \<Rightarrow> world \<Rightarrow> 'r \<times> world) \<Rightarrow> 'v \<Rightarrow> world \<Rightarrow> 'r option \<times> world" where
  "Formik_submit validationSchema onSubmit vals w =
     (if validationSchema vals then (case onSubmit vals w of (r, w') \<Rightarrow> (Some r, w'))
      else (None, w))"

subsection \<open>pages/auth/VerifyTwoFactorPage.tsx\<close>

definition TwoFactorVerifySchema :: "string \<Rightarrow> bool" where
  "TwoFactorVerifySchema token = (Yup_required token \<and> matches_six_digits token)"

definition VerifyTwoFactorPage_handleSubmit :: "string \<Rightarrow> world \<Rightarrow> string \<times> world" where
  "VerifyTwoFactorPage_handleSubmit token w =
    (case verifyTwoFactorLogin token w of
       (Inr u, w1) \<Rightarrow> ([], navigate ''/dashboard'' w1)
     | (Inl err, w1) \<Rightarrow>
         (error_message err ''Invalid verification code. Please try again.'', w1))"

definition VerifyTwoFactorPage_submit :: "string \<Rightarrow> world \<Rightarrow> string option \<times> world" where
  "VerifyTwoFactorPage_submit token w =
     Formik_submit TwoFactorVerifySchema VerifyTwoFactorPage_handleSubmit token w"

subsection \<open>pages/auth/SetupTwoFactorPage.tsx\<close>

record TwoFactorSetupFormValues =
  values_token :: string
  values_rememberDevice :: bool

definition TwoFactorSetupSchema :: "TwoFactorSetupFormValues \<Rightarrow> bool" where
  "TwoFactorSetupSchema vals =
     (Yup_required (values_token vals) \<and> matches_six_digits (values_token vals))"

text \<open>The state of the page.\<close>

record setup_page =
  page_isLoading :: bool
  page_qrCodeUrl :: "string option"
  page_secret :: "string option"
  page_error :: string
  page_verificationError :: string

definition generateTwoFactorSetup :: "setup_page \<Rightarrow> world \<Rightarrow> setup_page \<times> world" where
  "generateTwoFactorSetup pg w =
    (case setupTwoFactor w of
       (Inr response, w1) \<Rightarrow>
         (pg\<lparr>page_qrCodeUrl := qrCodeUrl response, page_secret := secret response,
             page_isLoading := False\<rparr>, w1)
     | (Inl err, w1) \<Rightarrow>
         (pg\<lparr>page_error := error_message err ''Failed to setup two-factor authentication.'',
             page_isLoading := False\<rparr>, w1))"

text \<open>The effect that runs when the page is mounted and when \<^verbatim>\<open>user\<close> changes.\<close>

definition SetupTwoFactorPage_effect :: "setup_page \<Rightarrow> world \<Rightarrow> setup_page \<times> world" where
  "SetupTwoFactorPage_effect pg w =
    (case user w of
       None \<Rightarrow> (pg, navigate ''/login'' w)
     | Some u \<Rightarrow>
         if isTwoFactorEnabled u then (pg, navigate ''/profile'' w)
         else generateTwoFactorSetup pg w)"

definition SetupTwoFactorPage_handleSubmit ::
  "setup_page \<Rightarrow> TwoFactorSetupFormValues \<Rightarrow> world \<Rightarrow> setup_page \<times> world" where
  "SetupTwoFactorPage_handleSubmit pg vals w =
    (let pg1 = pg\<lparr>page_verificationError := []\<rparr>
     in case verifyTwoFactor (values_token vals) (values_rememberDevice vals) w of
          (Inr u, w1) \<Rightarrow> (pg1, navigate ''/profile'' w1)
        | (Inl err, w1) \<Rightarrow>
            (pg1\<lparr>page_verificationError :=
                    error_message err ''Invalid verification code. Please try again.''\<rparr>, w1))"

definition SetupTwoFactorPage_submit ::
  "setup_page \<Rightarrow> TwoFactorSetupFormValues \<Rightarrow> world \<Rightarrow> setup_page option \<times> world" where
  "SetupTwoFactorPage_submit pg vals w =
     Formik_submit TwoFactorSetupSchema (SetupTwoFactorPage_handleSubmit pg) vals w"

subsection \<open>pages/SessionsPage.tsx\<close>

text \<open>
  The page takes \<^verbatim>\<open>getSessions\<close>, \<^verbatim>\<open>revokeSession\<close> and \<^verbatim>\<open>revokeAllOtherSessions\<close> from
  \<^verbatim>\<open>useAuth()\<close> and calls them. Calling a value that is not a function throws a
  \<^verbatim>\<open>TypeError\<close>, which each handler catches and turns into its error message. \<open>impl\<close> is what
  the member would do if the context had it.
\<close>

definition call_member ::
  "string \<Rightarrow> (world \<Rightarrow> (error + 'a) \<times> world) \<Rightarrow> world \<Rightarrow> (error + 'a) \<times> world" where
  "call_member name impl w =
     (case useAuth name of
        Some Function \<Rightarrow> impl w
      | _ \<Rightarrow> (Inl (TypeError (name @ '' is not a function'')), w))"

record sessions_page =
  page_sessions :: "session list"
  sessions_isLoading :: bool
  sessions_error :: string
  sessions_success :: string
  revokingSessionId :: "string option"
  isRevokingAll :: bool

definition fetchSessions ::
  "(world \<Rightarrow> (error + session list) \<times> world) \<Rightarrow> sessions_page \<Rightarrow> world \<Rightarrow> sessions_page \<times> world" where
  "fetchSessions impl pg w =
    (let pg1 = pg\<lparr>sessions_isLoading := True, sessions_error := []\<rparr>
     in case call_member ''getSessions'' impl w of
          (Inr sessionsData, w1) \<Rightarrow>
            (pg1\<lparr>page_sessions := sessionsData, sessions_isLoading := False\<rparr>, w1)
        | (Inl err, w1) \<Rightarrow>
            (pg1\<lparr>sessions_error := error_message err ''Failed to fetch sessions'',
                  sessions_isLoading := False\<rparr>, w1))"

definition handleRevokeSession ::
  "(string \<Rightarrow> world \<Rightarrow> (error + unit) \<times> world) \<Rightarrow> string \<Rightarrow> sessions_page \<Rightarrow> world
     \<Rightarrow> sessions_page \<times> world" where
  "handleRevokeSession impl sessionId pg w =
    (let pg1 = pg\<lparr>revokingSessionId := Some sessionId, sessions_error := [],
                   sessions_success := []\<rparr>
     in case call_member ''revokeSession'' (impl sessionId) w of
          (Inr u, w1) \<Rightarrow>
            (pg1\<lparr>page_sessions := filter (\<lambda>s. session_id s \<noteq> sessionId) (page_sessions pg),
                  sessions_success := ''Session revoked successfully'',
                  revokingSessionId := None\<rparr>, w1)
        | (Inl err, w1) \<Rightarrow>
            (pg1\<lparr>sessions_error := error_message err ''Failed to revoke session'',
                  revokingSessionId := None\<rparr>, w1))"

definition handleRevokeAllOtherSessions ::
  "(world \<Rightarrow> (error + unit) \<times> world) \<Rightarrow> (world \<Rightarrow> (error + session list) \<times> world)
     \<Rightarrow> sessions_page \<Rightarrow> world \<Rightarrow> sessions_page \<times> world" where
  "handleRevokeAllOtherSessions impl getImpl pg w =
    (let pg1 = pg\<lparr>isRevokingAll := True, sessions_error := [], sessions_success := []\<rparr>
     in case call_member ''revokeAllOtherSessions'' impl w of
          (Inr u, w1) \<Rightarrow>
            (case fetchSessions getImpl pg1 w1 of
               (pg2, w2) \<Rightarrow>
                 (pg2\<lparr>sessions_success := ''All other sessions revoked successfully'',
                       isRevokingAll := False\<rparr>, w2))
        | (Inl err, w1) \<Rightarrow>
            (pg1\<lparr>sessions_error := error_message err ''Failed to revoke all other sessions'',
                  isRevokingAll := False\<rparr>, w1))"

subsection \<open>components/auth/RoleProtectedRoute.tsx\<close>





section \<open>Observations\<close>

text \<open>The requests that one call of \<open>api\<close> puts on the wire, the status of the next answer of
  the backend, and two requests being the same up to headers and the retry mark.\<close>

definition same_request :: "request \<Rightarrow> request \<Rightarrow> bool" where
  "same_request a b = (http_method a = http_method b \<and> url a = url b \<and> baseURL a = baseURL b \<and> payload a = payload b)"

definition first_status :: "world \<Rightarrow> nat option" where
  "first_status w = (case server w of [] \<Rightarrow> None | r # rs \<Rightarrow> Some (status r))"

definition requests_of :: "request \<Rightarrow> world \<Rightarrow> request list" where
  "requests_of c w = drop (length (sent w)) (sent (snd (api c w)))"

text \<open>The requests sent between a state and a later state.\<close>

definition new_requests :: "world \<Rightarrow> world \<Rightarrow> request list" where
  "new_requests w w' = drop (length (sent w)) (sent w')"



section \<open>Scenarios\<close>

text \<open>A browser in its initial state, facing a backend that will give the answers \<open>rs\<close>, and
  an answer with a status and a body. They serve to write scenarios down.\<close>

definition browser :: "reply list \<Rightarrow> world" where
  "browser rs = \<lparr>localStorage = Map.empty, sessionStorage = Map.empty, server = rs, sent = [],
                 console = [], href = None, navigated = [], user = None, isLoading = True,
                 now = 0\<rparr>"

definition answer :: "nat \<Rightarrow> body \<Rightarrow> reply" where
  "answer code d = \<lparr>status = code, statusText = [], data = d\<rparr>"


definition user_body :: "user \<Rightarrow> body" where
  "user_body u = no_body\<lparr>as_user := Some u\<rparr>"

text \<open>A user object with a given role and two-factor flag, for scenarios.\<close>

definition some_user :: "Role option \<Rightarrow> bool \<Rightarrow> user" where
  "some_user r tf = \<lparr>user_id = ''1'', user_email = ''ann@example.org'', user_username = ''ann'',
                     role = r, isTwoFactorEnabled = tf\<rparr>"

text \<open>The setup page as it is first rendered.\<close>

definition blank_page :: setup_page where
  "blank_page = \<lparr>page_isLoading = True, page_qrCodeUrl = None, page_secret = None,
                  page_error = [], page_verificationError = []\<rparr>"

section \<open>Properties of the api instance\<close>

lemma console_fields [simp]:
  "sent (console_log a w) = sent w" "server (console_log a w) = server w"
  "localStorage (console_log a w) = localStorage w"
  "sent (console_error a w) = sent w" "server (console_error a w) = server w"
  "localStorage (console_error a w) = localStorage w"
  by (simp_all add: console_log_def console_error_def)

lemma send_sent: "send c w = (r, w') \<Longrightarrow> sent w' = sent w @ [c]"
  by (auto simp: send_def Let_def split: list.splits if_splits)

lemma send_status:
  "send c w = (Inl (AxiosError c' r), w') \<Longrightarrow> map_option status r = first_status w \<and> c' = c"
  by (auto simp: send_def Let_def first_status_def split: list.splits if_splits)

lemma request_interceptor_same:
  "request_interceptor c w = (c', w') \<Longrightarrow>
     same_request c' c \<and> retry c' = retry c \<and> sent w' = sent w \<and> server w' = server w"
  by (auto simp: request_interceptor_def same_request_def Let_def split: if_splits)

lemma rei_reject_early:
  "retry c \<or> map_option status r \<noteq> Some 401 \<Longrightarrow>
   response_error_interceptor (AxiosError c r) w = (oc, w') \<Longrightarrow> sent w' = sent w \<and> oc = Reject (AxiosError c r)"
  by (auto simp: response_error_interceptor_def Let_def split: if_splits)

lemma rei_shape:
  "response_error_interceptor (AxiosError c r) w = (oc, w') \<Longrightarrow>
     (sent w' = sent w \<and> (\<exists>e. oc = Reject e)) \<or>
     (\<exists>t. sent w' = sent w @ [refresh_request t] \<and> ((\<exists>e. oc = Reject e) \<or> (\<exists>c'. oc = Retry c' \<and> same_request c' c \<and> retry c')))"
  by (auto simp: response_error_interceptor_def Let_def same_request_def store_tokens_def clear_tokens_def split: if_splits prod.splits sum.splits dest!: send_sent)

lemma api_retry_once:
  assumes "retry c"
  shows "\<exists>c1. same_request c1 c \<and> retry c1 \<and> sent (snd (api c w)) = sent w @ [c1]"
proof -
  obtain c1 w1 where ri: "request_interceptor c w = (c1, w1)" by (cases "request_interceptor c w")
  obtain res w2 where sd: "send c1 w1 = (res, w2)" by (cases "send c1 w1")
  have c1: "same_request c1 c" "retry c1" "sent w1 = sent w"
    using request_interceptor_same [OF ri] assms by auto
  have s2: "sent w2 = sent w @ [c1]" using send_sent [OF sd] c1 by simp
  show ?thesis
  proof (cases res)
    case (Inr resp)
    then show ?thesis using ri sd c1 s2
      by (subst api.simps) (auto simp: response_interceptor_def)
  next
    case (Inl err)
    then obtain r where e: "err = AxiosError c1 r" using send_error_config [of c1 w1 err w2] sd by auto
    obtain oc w3 where eh: "response_error_interceptor (AxiosError c1 r) w2 = (oc, w3)"
      by (cases "response_error_interceptor (AxiosError c1 r) w2")
    from rei_reject_early [OF _ eh] c1 have "sent w3 = sent w2" "oc = Reject (AxiosError c1 r)" by auto
    then show ?thesis using ri sd c1 s2 Inl e eh
      by (subst api.simps) auto
  qed
qed


lemma same_request_trans: "same_request a b \<Longrightarrow> same_request b c \<Longrightarrow> same_request a c"
  by (simp add: same_request_def)

lemma api_trace:
  "\<exists>c1. same_request c1 c \<and> retry c1 = retry c \<and>
      (requests_of c w = [c1] \<or>
       (\<exists>t. requests_of c w = [c1, refresh_request t]) \<or>
       (\<exists>t c2. requests_of c w = [c1, refresh_request t, c2] \<and> same_request c2 c \<and> retry c2))"
proof -
  obtain c1 w1 where ri: "request_interceptor c w = (c1, w1)" by (cases "request_interceptor c w")
  obtain res w2 where sd: "send c1 w1 = (res, w2)" by (cases "send c1 w1")
  have c1: "same_request c1 c" "retry c1 = retry c" "sent w1 = sent w"
    using request_interceptor_same [OF ri] by auto
  have s2: "sent w2 = sent w @ [c1]" using send_sent [OF sd] c1 by simp
  show ?thesis
  proof (cases res)
    case (Inr resp)
    then have "requests_of c w = [c1]" using api.simps [of c w] ri sd s2
      by (simp add: requests_of_def response_interceptor_def)
    then show ?thesis using c1 by blast
  next
    case (Inl err)
    then obtain r where e: "err = AxiosError c1 r" using send_error_config [of c1 w1 err w2] sd by auto
    obtain oc w3 where eh: "response_error_interceptor (AxiosError c1 r) w2 = (oc, w3)"
      by (cases "response_error_interceptor (AxiosError c1 r) w2")
    show ?thesis
    proof (cases oc)
      case (Reject e')
      then have res: "sent (snd (api c w)) = sent w3" using api.simps [of c w] ri sd Inl e eh by simp
      from rei_shape [OF eh] Reject
      have "sent w3 = sent w2 \<or> (\<exists>t. sent w3 = sent w2 @ [refresh_request t])" by auto
      then have "requests_of c w = [c1] \<or> (\<exists>t. requests_of c w = [c1, refresh_request t])"
        using res s2 by (auto simp: requests_of_def)
      then show ?thesis using c1 by blast
    next
      case (Retry c')
      then have res: "api c w = api c' w3" using api.simps [of c w] ri sd Inl e eh by simp
      from rei_shape [OF eh] Retry
      obtain t where t: "sent w3 = sent w2 @ [refresh_request t]" "same_request c' c1" "retry c'"
        by auto
      from api_retry_once [OF t(3), of w3]
      obtain c2 where c2: "same_request c2 c'" "retry c2" "sent (snd (api c' w3)) = sent w3 @ [c2]"
        by blast
      have "requests_of c w = [c1, refresh_request t, c2]"
        using res c2(3) t(1) s2 by (simp add: requests_of_def)
      moreover have "same_request c2 c"
        using c2(1) t(2) c1(1) same_request_trans by blast
      ultimately show ?thesis using c1 c2(2) by blast
    qed
  qed
qed

lemma api_no_retry:
  assumes "retry c \<or> first_status w \<noteq> Some 401"
  shows "\<exists>c1. requests_of c w = [c1]"
proof -
  obtain c1 w1 where ri: "request_interceptor c w = (c1, w1)" by (cases "request_interceptor c w")
  obtain res w2 where sd: "send c1 w1 = (res, w2)" by (cases "send c1 w1")
  have c1: "retry c1 = retry c" "sent w1 = sent w" "server w1 = server w"
    using request_interceptor_same [OF ri] by auto
  have s2: "sent w2 = sent w @ [c1]" using send_sent [OF sd] c1 by simp
  show ?thesis
  proof (cases res)
    case (Inr resp)
    then show ?thesis using api.simps [of c w] ri sd s2
      by (simp add: requests_of_def response_interceptor_def)
  next
    case (Inl err)
    then obtain r where e: "err = AxiosError c1 r" using send_error_config [of c1 w1 err w2] sd by auto
    have "map_option status r = first_status w1" using send_status [of c1 w1 c1 r w2] sd Inl e by simp
    then have "retry c1 \<or> map_option status r \<noteq> Some 401"
      using assms c1 by (simp add: first_status_def)
    moreover obtain oc w3 where eh: "response_error_interceptor (AxiosError c1 r) w2 = (oc, w3)"
      by (cases "response_error_interceptor (AxiosError c1 r) w2")
    ultimately have "sent w3 = sent w2" "oc = Reject (AxiosError c1 r)"
      using rei_reject_early [OF _ eh] by auto
    then show ?thesis using api.simps [of c w] ri sd Inl e eh s2
      by (simp add: requests_of_def)
  qed
qed

text \<open>
  Claim C2. A request made through the api instance causes at most one token refresh and
  at most one retry. The requests that one call of \<open>api\<close> puts on the wire are the request
  itself, or the request and one refresh request, or the request, one refresh request and
  one retry of the same request, which carries the retry mark. When the request is already
  marked, or when the backend answers it with anything but the status 401 (or not at all),
  the request is the only one sent: nothing is refreshed and nothing is retried. That no
  request loops for ever is the termination of \<open>api\<close>, proved with its definition.
\<close>

theorem api_refresh_retry_at_most_once:
  "(\<exists>c1. same_request c1 c \<and> retry c1 = retry c \<and>
      (requests_of c w = [c1] \<or>
       (\<exists>t. requests_of c w = [c1, refresh_request t]) \<or>
       (\<exists>t c2. requests_of c w = [c1, refresh_request t, c2] \<and> same_request c2 c \<and> retry c2)))
   \<and> (retry c \<or> first_status w \<noteq> Some 401 \<longrightarrow> (\<exists>c1. requests_of c w = [c1]))"
  using api_trace [of c w] api_no_retry [of c w] by blast

theorem api_refresh_retry_at_most_once_witness:
  "first_status (browser [answer 500 no_body]) \<noteq> Some 401 \<and>
   (\<exists>c1. requests_of (api_config GET ''/auth/me'' NoPayload) (browser [answer 500 no_body]) = [c1])"
  using api_refresh_retry_at_most_once
    [of "api_config GET ''/auth/me'' NoPayload" "browser [answer 500 no_body]"]
  by (simp add: first_status_def browser_def answer_def)

section \<open>Form validation of two-factor codes\<close>

lemma digits_iff:
  "digits n s = Some r \<longleftrightarrow> (\<exists>d. s = d @ r \<and> length d = n \<and> (\<forall>c\<in>set d. isDigit c))"
proof (induction n s rule: digits.induct)
  case (1 s)
  then show ?case by auto
next
  case (2 n)
  then show ?case by auto
next
  case (3 n c s)
  show ?case
  proof (cases "isDigit c")
    case True
    have "(\<exists>d. c # s = d @ r \<and> length d = Suc n \<and> (\<forall>x\<in>set d. isDigit x))
          \<longleftrightarrow> (\<exists>d. s = d @ r \<and> length d = n \<and> (\<forall>x\<in>set d. isDigit x))"
    proof
      assume "\<exists>d. c # s = d @ r \<and> length d = Suc n \<and> (\<forall>x\<in>set d. isDigit x)"
      then obtain d where d: "c # s = d @ r" "length d = Suc n" "\<forall>x\<in>set d. isDigit x" by blast
      then obtain d' where "d = c # d'" by (cases d) auto
      with d show "\<exists>d. s = d @ r \<and> length d = n \<and> (\<forall>x\<in>set d. isDigit x)" by auto
    next
      assume "\<exists>d. s = d @ r \<and> length d = n \<and> (\<forall>x\<in>set d. isDigit x)"
      then obtain d where "s = d @ r" "length d = n" "\<forall>x\<in>set d. isDigit x" by blast
      with True have "c # s = (c # d) @ r \<and> length (c # d) = Suc n \<and> (\<forall>x\<in>set (c # d). isDigit x)"
        by simp
      then show "\<exists>d. c # s = d @ r \<and> length d = Suc n \<and> (\<forall>x\<in>set d. isDigit x)" by blast
    qed
    with True 3 show ?thesis by simp
  next
    case False
    have "\<not> (\<exists>d. c # s = d @ r \<and> length d = Suc n \<and> (\<forall>x\<in>set d. isDigit x))"
    proof
      assume "\<exists>d. c # s = d @ r \<and> length d = Suc n \<and> (\<forall>x\<in>set d. isDigit x)"
      then obtain d where d: "c # s = d @ r" "length d = Suc n" "\<forall>x\<in>set d. isDigit x" by blast
      then obtain d' where "d = c # d'" by (cases d) auto
      with d False show False by auto
    qed
    with False show ?thesis by simp
  qed
qed

lemma matches_six_digits_iff:
  "matches_six_digits s \<longleftrightarrow> length s = 6 \<and> (\<forall>c\<in>set s. isDigit c)"
  unfolding matches_six_digits_def digits_iff by auto

text \<open>
  Claim C8. Both two-factor forms accept a code exactly when it consists of six decimal
  digits, and a submission with a code of any other shape changes nothing: the submit
  handler is not called, so no request leaves the browser.
\<close>

theorem two_factor_code_validated:
  "(TwoFactorVerifySchema token \<longleftrightarrow> length token = 6 \<and> (\<forall>c\<in>set token. isDigit c)) \<and>
   (TwoFactorSetupSchema vals \<longleftrightarrow>
      length (values_token vals) = 6 \<and> (\<forall>c\<in>set (values_token vals). isDigit c)) \<and>
   (\<not> (length token = 6 \<and> (\<forall>c\<in>set token. isDigit c)) \<longrightarrow>
      VerifyTwoFactorPage_submit token w = (None, w)) \<and>
   (\<not> (length (values_token vals) = 6 \<and> (\<forall>c\<in>set (values_token vals). isDigit c)) \<longrightarrow>
      SetupTwoFactorPage_submit pg vals w = (None, w))"
  by (auto simp: TwoFactorVerifySchema_def TwoFactorSetupSchema_def matches_six_digits_iff
      Yup_required_def VerifyTwoFactorPage_submit_def SetupTwoFactorPage_submit_def
      Formik_submit_def)

theorem two_factor_code_validated_witness:
  "\<not> (length ''12345a'' = 6 \<and> (\<forall>c\<in>set ''12345a''. isDigit c)) \<and>
   VerifyTwoFactorPage_submit ''12345a'' (browser []) = (None, browser []) \<and>
   TwoFactorVerifySchema ''123456''"
  using two_factor_code_validated [where token = "''12345a''" and w = "browser []"]
        two_factor_code_validated [where token = "''123456''"]
  by (simp add: isDigit_def)

section \<open>The sessions page and the context value\<close>

text \<open>
  Claim C3. The value of the provider has no member \<^verbatim>\<open>getSessions\<close>, \<^verbatim>\<open>revokeSession\<close> or
  \<^verbatim>\<open>revokeAllOtherSessions\<close>: the sessions page gets \<^verbatim>\<open>undefined\<close> for each, and fetching the
  sessions ends in the handler's error message without any request, whatever the missing
  member was meant to do.
\<close>

theorem session_members_undefined:
  "useAuth ''getSessions'' = None \<and> useAuth ''revokeSession'' = None \<and>
   useAuth ''revokeAllOtherSessions'' = None \<and>
   fetchSessions impl pg w =
     (pg\<lparr>sessions_isLoading := False, sessions_error := ''Failed to fetch sessions''\<rparr>, w) \<and>
   snd (handleRevokeSession impl1 sessionId pg w) = w \<and>
   sessions_error (fst (handleRevokeSession impl1 sessionId pg w)) = ''Failed to revoke session'' \<and>
   snd (handleRevokeAllOtherSessions impl2 impl pg w) = w \<and>
   sessions_error (fst (handleRevokeAllOtherSessions impl2 impl pg w))
     = ''Failed to revoke all other sessions''"
  by (simp add: useAuth_def AuthProvider_value_def fetchSessions_def handleRevokeSession_def
      handleRevokeAllOtherSessions_def call_member_def error_message_def)

section \<open>The role guard\<close>





section \<open>The two-factor setup page\<close>

lemma snd_response_data [simp]: "snd (response_data r) = snd r"
  by (simp add: response_data_def split: prod.splits sum.splits)

lemma navigate_fields [simp]:
  "sent (navigate t w) = sent w" "localStorage (navigate t w) = localStorage w"
  by (simp_all add: navigate_def)

lemma api_first_request:
  "\<exists>c1 rest. requests_of c w = c1 # rest \<and> same_request c1 c"
  using api_trace [of c w] by auto

lemma setup_first_request:
  "\<exists>c rest. new_requests w (snd (setupTwoFactor w)) = c # rest \<and>
      http_method c = POST \<and> url c = ''/auth/2fa/setup''"
  using api_first_request [of "api_config POST ''/auth/2fa/setup'' NoPayload" w]
  by (auto simp: setupTwoFactor_def authService_setupTwoFactor_def new_requests_def
      requests_of_def same_request_def api_config_def)

lemma snd_generateTwoFactorSetup:
  "snd (generateTwoFactorSetup pg w) = snd (setupTwoFactor w)"
  by (simp add: generateTwoFactorSetup_def split: prod.splits sum.splits)

text \<open>
  Claim C6. For a user with two-factor authentication enabled the effect of the setup page
  only navigates to the profile page: it sends no request, so it does not call
  \<open>setupTwoFactor\<close>. Whenever the effect sends a request at all, there is a user and the
  user's flag is off; for such a user the effect is the generation of the setup, whose first
  request is the POST to \<^verbatim>\<open>/auth/2fa/setup\<close>.
\<close>

theorem setup_page_enrolls_only_without_two_factor:
  "(user w = Some u \<and> isTwoFactorEnabled u \<longrightarrow>
      SetupTwoFactorPage_effect pg w = (pg, navigate ''/profile'' w) \<and>
      new_requests w (snd (SetupTwoFactorPage_effect pg w)) = []) \<and>
   (new_requests w (snd (SetupTwoFactorPage_effect pg w)) \<noteq> [] \<longrightarrow>
      (\<exists>v. user w = Some v \<and> \<not> isTwoFactorEnabled v)) \<and>
   (user w = Some u \<and> \<not> isTwoFactorEnabled u \<longrightarrow>
      SetupTwoFactorPage_effect pg w = generateTwoFactorSetup pg w \<and>
      (\<exists>c rest. new_requests w (snd (SetupTwoFactorPage_effect pg w)) = c # rest \<and>
          http_method c = POST \<and> url c = ''/auth/2fa/setup''))"
proof -
  have a: "SetupTwoFactorPage_effect pg w = (pg, navigate ''/profile'' w) \<and>
           new_requests w (snd (SetupTwoFactorPage_effect pg w)) = []"
    if "user w = Some u" "isTwoFactorEnabled u"
    using that by (simp add: SetupTwoFactorPage_effect_def new_requests_def)
  have b: "\<exists>v. user w = Some v \<and> \<not> isTwoFactorEnabled v"
    if "new_requests w (snd (SetupTwoFactorPage_effect pg w)) \<noteq> []"
    using that by (cases "user w") (auto simp: SetupTwoFactorPage_effect_def new_requests_def split: if_splits)
  have c: "SetupTwoFactorPage_effect pg w = generateTwoFactorSetup pg w \<and>
      (\<exists>c rest. new_requests w (snd (SetupTwoFactorPage_effect pg w)) = c # rest \<and>
          http_method c = POST \<and> url c = ''/auth/2fa/setup'')"
    if "user w = Some u" "\<not> isTwoFactorEnabled u"
    using that setup_first_request [of w]
    by (simp add: SetupTwoFactorPage_effect_def snd_generateTwoFactorSetup)
  show ?thesis using a b c by blast
qed

theorem setup_page_enrolls_only_without_two_factor_witness:
  "user ((browser [])\<lparr>user := Some (some_user (Some viewer) True)\<rparr>) = Some (some_user (Some viewer) True) \<and>
   isTwoFactorEnabled (some_user (Some viewer) True) \<and>
   SetupTwoFactorPage_effect blank_page ((browser [])\<lparr>user := Some (some_user (Some viewer) True)\<rparr>)
     = (blank_page, navigate ''/profile'' ((browser [])\<lparr>user := Some (some_user (Some viewer) True)\<rparr>))"
proof -
  let ?u = "some_user (Some viewer) True"
  let ?w = "(browser [])\<lparr>user := Some ?u\<rparr>"
  have a: "user ?w = Some ?u" by simp
  have b: "isTwoFactorEnabled ?u" by (simp add: some_user_def)
  from setup_page_enrolls_only_without_two_factor [of ?w ?u blank_page, THEN conjunct1] a b
  show ?thesis by blast
qed


section \<open>The stored token pair\<close>

lemma state_fields [simp]:
  "localStorage (setUser u w) = localStorage w"
  "localStorage (setIsLoading b w) = localStorage w"
  "sessionStorage (console_log a w) = sessionStorage w"
  "sessionStorage (console_error a w) = sessionStorage w"
  by (simp_all add: setUser_def setIsLoading_def console_log_def console_error_def)


lemma tokens_simps [simp]:
  "tokens_paired (console_log a w) = tokens_paired w"
  "tokens_paired (console_error a w) = tokens_paired w"
  "tokens_paired (navigate t w) = tokens_paired w"
  "tokens_paired (setUser u w) = tokens_paired w"
  "tokens_paired (setIsLoading b w) = tokens_paired w"
  "tokens_paired (w\<lparr>sessionStorage := s\<rparr>) = tokens_paired w"
  "tokens_paired (w\<lparr>href := h\<rparr>) = tokens_paired w"
  "tokens_stored (console_log a w) = tokens_stored w"
  "tokens_stored (console_error a w) = tokens_stored w"
  "tokens_stored (navigate t w) = tokens_stored w"
  "tokens_stored (setUser u w) = tokens_stored w"
  "tokens_stored (setIsLoading b w) = tokens_stored w"
  "tokens_stored (w\<lparr>sessionStorage := s\<rparr>) = tokens_stored w"
  "tokens_stored (w\<lparr>href := h\<rparr>) = tokens_stored w"
  "tokens_removed (console_log a w) = tokens_removed w"
  "tokens_removed (console_error a w) = tokens_removed w"
  "tokens_removed (navigate t w) = tokens_removed w"
  "tokens_removed (setUser u w) = tokens_removed w"
  "tokens_removed (setIsLoading b w) = tokens_removed w"
  "tokens_removed (w\<lparr>sessionStorage := s\<rparr>) = tokens_removed w"
  "tokens_removed (w\<lparr>href := h\<rparr>) = tokens_removed w"
  by (simp_all add: tokens_paired_def tokens_stored_def tokens_removed_def)

lemma store_tokens_stored [simp]:
  "tokens_stored (store_tokens a r w)" "tokens_paired (store_tokens a r w)"
  by (simp_all add: tokens_stored_def tokens_paired_def store_tokens_def has_item_def getItem_def setItem_def)

lemma clear_tokens_removed [simp]:
  "tokens_removed (clear_tokens w)" "tokens_paired (clear_tokens w)"
  by (simp_all add: tokens_removed_def tokens_paired_def clear_tokens_def has_item_def getItem_def removeItem_def)



























section \<open>Login\<close>














section \<open>Two-factor login\<close>






section \<open>The startup check and an expiry of zero\<close>

text \<open>
  Claim C4. A stored token whose payload has the expiry 0 is expired at every later time,
  yet the startup check takes it for valid: \<^verbatim>\<open>decoded.exp && ...\<close> is falsy for the number
  0, so the check logs that the token is valid and asks for the current user with that
  token. Here the clock stands at one second after the epoch; the only request sent is the
  GET of \<^verbatim>\<open>/auth/me\<close> with the stored token, and no refresh is attempted.
\<close>

theorem expiry_zero_taken_for_valid:
  "less_number (exp_claim \<lparr>exp_claim = Some 0\<rparr>)
     (of_int (now ((browser [answer 200 (user_body (some_user (Some viewer) False))])
        \<lparr>localStorage := [''accessToken'' \<mapsto> ''T'', ''refreshToken'' \<mapsto> ''R''], now := 1000\<rparr>)) / 1000) \<and>
   map (\<lambda>r. (http_method r, url r, Authorization r))
     (sent (checkAuthStatus (\<lambda>t. Inr \<lparr>exp_claim = Some 0\<rparr>)
        ((browser [answer 200 (user_body (some_user (Some viewer) False))])
           \<lparr>localStorage := [''accessToken'' \<mapsto> ''T'', ''refreshToken'' \<mapsto> ''R''], now := 1000\<rparr>)))
     = [(GET, ''/auth/me'', Some ''Bearer T'')] \<and>
   (Info, [LStr ''Token valid, getting user info'']) \<in> set
     (console (checkAuthStatus (\<lambda>t. Inr \<lparr>exp_claim = Some 0\<rparr>)
        ((browser [answer 200 (user_body (some_user (Some viewer) False))])
           \<lparr>localStorage := [''accessToken'' \<mapsto> ''T'', ''refreshToken'' \<mapsto> ''R''], now := 1000\<rparr>)))"
  by code_simp

section \<open>What a failed login writes to the console\<close>

text \<open>
  Claim C7. When the login request fails, the error that \<open>login\<close> and the login page log is
  the axios error, which carries the configuration of the request and with it the form that
  holds the password. Two attempts that differ only in the password, answered alike by the
  backend (here with the status 500), leave different console logs, and the last message of
  the first attempt contains its password.
\<close>

theorem password_reaches_console:
  "console (snd (LoginPage_handleSubmit ''/dashboard''
     \<lparr>values_email = ''ann'', values_password = ''hunter2'', values_rememberMe = False\<rparr>
     (browser [answer 500 no_body]))) \<noteq>
   console (snd (LoginPage_handleSubmit ''/dashboard''
     \<lparr>values_email = ''ann'', values_password = ''hunter3'', values_rememberMe = False\<rparr>
     (browser [answer 500 no_body]))) \<and>
   last (console (snd (LoginPage_handleSubmit ''/dashboard''
     \<lparr>values_email = ''ann'', values_password = ''hunter2'', values_rememberMe = False\<rparr>
     (browser [answer 500 no_body])))) =
   (Err, [LStr ''LoginPage - Login error:'',
          LError (AxiosError
            \<lparr>http_method = POST, url = ''/auth/login'', baseURL = ''/api'',
               payload = URLSearchParams [(''username'', ''ann''), (''password'', ''hunter2'')],
               Authorization = None, retry = False\<rparr>
            (Some \<lparr>status = 500, statusText = [], data = no_body,
                    config =
                      \<lparr>http_method = POST, url = ''/auth/login'', baseURL = ''/api'',
                         payload = URLSearchParams [(''username'', ''ann''), (''password'', ''hunter2'')],
                         Authorization = None, retry = False\<rparr>\<rparr>))])"
  by code_simp

end
